theory Spec2Isabelle
  imports Complex_Main
begin

section \<open>Python values, exceptions and library calls\<close>

text \<open>
  The document pipeline of the repository: \<^verbatim>\<open>app/rag/file_handle.py\<close>,
  \<^verbatim>\<open>app/rag/chunking.py\<close>, \<^verbatim>\<open>app/rag/retrieval.py\<close> and the tool
  \<^verbatim>\<open>retrieval\<close> of \<^verbatim>\<open>app/mcp/rag_mcp.py\<close>.

  A Python \<^verbatim>\<open>str\<close> is a \<^typ>\<open>string\<close>; its characters are the code points
  below 256. A raised exception is the \<open>Inl\<close> of a sum.
\<close>

type_synonym bytes = string

datatype exn =
    ValueError string
  | IndexError string
  | TimeoutError
  | LibraryError string

text \<open>\<^verbatim>\<open>str(e)\<close> of an exception, as the f-string of \<^verbatim>\<open>chunking_json\<close> prints it.\<close>

fun exn_str :: "exn \<Rightarrow> string" where
  "exn_str (ValueError m) = m"
| "exn_str (IndexError m) = m"
| "exn_str TimeoutError = []"
| "exn_str (LibraryError m) = m"

text \<open>What \<^verbatim>\<open>json.loads\<close> returns. A dict is an association list read with \<^const>\<open>map_of\<close>.\<close>

datatype json =
    JNull
  | JBool bool
  | JInt int
  | JFloat real
  | JStr string
  | JArr "json list"
  | JObj "(string \<times> json) list"

text \<open>Python's truth value of such a value (\<^verbatim>\<open>not q\<close> is its negation).\<close>

fun truthy :: "json \<Rightarrow> bool" where
  "truthy JNull = False"
| "truthy (JBool b) = b"
| "truthy (JInt n) = (n \<noteq> 0)"
| "truthy (JFloat x) = (x \<noteq> 0)"
| "truthy (JStr s) = (s \<noteq> [])"
| "truthy (JArr xs) = (xs \<noteq> [])"
| "truthy (JObj kvs) = (kvs \<noteq> [])"

text \<open>A section returned by langchain's \<^verbatim>\<open>MarkdownHeaderTextSplitter\<close>.\<close>

record md_doc =
  md_page_content :: string
  md_headers :: "string \<Rightarrow> string option"

text \<open>
  The calls into libraries and into the Python runtime that the source makes, taken as
  parameters:
  \<^item> \<open>http_get\<close>: the \<^verbatim>\<open>httpx\<close> request of \<^verbatim>\<open>read_file_from_url\<close> (body, or the
    raised error);
  \<^item> \<open>urlparse_path\<close>: \<^verbatim>\<open>urlparse(url).path\<close>;
  \<^item> \<open>pdf_reader\<close>: \<^verbatim>\<open>PdfReader(BytesIO(file_bytes))\<close>, which may raise, and then
    \<^verbatim>\<open>extract_text()\<close> of each page in order, which may raise too;
  \<^item> \<open>text_splitter\<close>: constructing \<^verbatim>\<open>RecursiveCharacterTextSplitter(chunk_size,
    chunk_overlap)\<close>, which may raise, gives its \<^verbatim>\<open>split_text\<close>;
  \<^item> \<open>decode_ignore\<close>: \<^verbatim>\<open>bytes.decode("utf-8", errors="ignore")\<close>;
  \<^item> \<open>md_header_split\<close>: \<^verbatim>\<open>MarkdownHeaderTextSplitter(...).split_text\<close>;
  \<^item> \<open>decode_strict\<close>: \<^verbatim>\<open>bytes.decode("utf-8")\<close>; \<open>json_loads\<close>: \<^verbatim>\<open>json.loads\<close>;
  \<^item> \<open>py_repr\<close>: \<^verbatim>\<open>str(v)\<close> of a value that is not a \<^verbatim>\<open>str\<close>;
  \<^item> \<open>question_keys_iter\<close>, \<open>answer_keys_iter\<close>: the order in which the running
    interpreter iterates over the set literals \<^verbatim>\<open>QUESTION_KEYS\<close> and \<^verbatim>\<open>ANSWER_KEYS\<close>.
\<close>

record lib =
  http_get :: "string \<Rightarrow> exn + bytes"
  urlparse_path :: "string \<Rightarrow> string"
  pdf_reader :: "bytes \<Rightarrow> exn + (exn + string) list"
  text_splitter :: "int \<Rightarrow> int \<Rightarrow> exn + (string \<Rightarrow> string list)"
  decode_ignore :: "bytes \<Rightarrow> string"
  md_header_split :: "string \<Rightarrow> md_doc list"
  decode_strict :: "bytes \<Rightarrow> exn + string"
  json_loads :: "string \<Rightarrow> exn + json"
  py_repr :: "json \<Rightarrow> string"
  question_keys_iter :: "string list"
  answer_keys_iter :: "string list"

section \<open>Strings\<close>

text \<open>
  The characters for which \<^verbatim>\<open>str.isspace\<close> holds, which are also the ones \<^verbatim>\<open>\s\<close>
  matches and \<^verbatim>\<open>str.strip()\<close> removes: tab to carriage return, the four separators
  0x1C to 0x1F, the space, NEL and the no-break space.
\<close>

definition whitespace :: "char list" where
  "whitespace = [CHR 0x09, CHR 0x0A, CHR 0x0B, CHR 0x0C, CHR 0x0D,
                 CHR 0x1C, CHR 0x1D, CHR 0x1E, CHR 0x1F, CHR 0x20, CHR 0x85, CHR 0xA0]"

definition isspace :: "char \<Rightarrow> bool" where
  "isspace c = (c \<in> set whitespace)"

definition newline :: char where
  "newline = CHR 0x0A"

definition space :: char where
  "space = CHR 0x20"

text \<open>\<^verbatim>\<open>s.replace("\n", " ")\<close>\<close>

definition replace_newline :: "string \<Rightarrow> string" where
  "replace_newline s = map (\<lambda>c. if c = newline then space else c) s"

text \<open>\<^verbatim>\<open>re.sub(r"\s+", " ", s)\<close>: every maximal run of whitespace becomes one space.\<close>

function re_sub_spaces :: "string \<Rightarrow> string" where
  "re_sub_spaces [] = []"
| "re_sub_spaces (c # cs) =
     (if isspace c then space # re_sub_spaces (dropWhile isspace cs)
      else c # re_sub_spaces cs)"
  by pat_completeness auto
termination
  by (relation "measure length") (auto simp: less_Suc_eq_le length_dropWhile_le)

definition lstrip :: "string \<Rightarrow> string" where
  "lstrip s = dropWhile isspace s"

definition rstrip :: "string \<Rightarrow> string" where
  "rstrip s = rev (dropWhile isspace (rev s))"

definition strip :: "string \<Rightarrow> string" where
  "strip s = rstrip (lstrip s)"

text \<open>\<^verbatim>\<open>s.endswith(suffix)\<close>\<close>

definition endswith :: "string \<Rightarrow> string \<Rightarrow> bool" where
  "endswith s suffix = (length suffix \<le> length s \<and> drop (length s - length suffix) s = suffix)"

text \<open>\<^verbatim>\<open>str(n)\<close> of a natural number, as an f-string prints it.\<close>

fun str_nat :: "nat \<Rightarrow> string" where
  "str_nat n =
     (if n < 10 then [''0123456789'' ! n]
      else str_nat (n div 10) @ [''0123456789'' ! (n mod 10)])"

declare str_nat.simps [simp del]

text \<open>\<^verbatim>\<open>os.path.basename(p)\<close> on POSIX: what follows the last slash.\<close>

definition basename :: "string \<Rightarrow> string" where
  "basename p = rev (takeWhile (\<lambda>c. c \<noteq> CHR ''/'') (rev p))"

text \<open>\<^verbatim>\<open>s.split(sep, 1)\<close> for a separator of one character.\<close>

definition split1 :: "char \<Rightarrow> string \<Rightarrow> string list" where
  "split1 sep s =
     (case dropWhile (\<lambda>c. c \<noteq> sep) s of
        [] \<Rightarrow> [s]
      | _ # rest \<Rightarrow> [takeWhile (\<lambda>c. c \<noteq> sep) s, rest])"

text \<open>\<^verbatim>\<open>xs[1]\<close>, which raises \<^verbatim>\<open>IndexError\<close> on a list shorter than two.\<close>

definition index1 :: "'a list \<Rightarrow> exn + 'a" where
  "index1 xs =
     (case xs of
        _ # y # _ \<Rightarrow> Inr y
      | _ \<Rightarrow> Inl (IndexError ''list index out of range''))"

section \<open>file_handle.py\<close>

definition QUESTION_KEYS :: "string set" where
  "QUESTION_KEYS = {''question'', ''q'', ''query''}"

definition ANSWER_KEYS :: "string set" where
  "ANSWER_KEYS = {''answer'', ''a'', ''response''}"

text \<open>A list is an iteration order of a set when it enumerates the set without repetition.\<close>

definition iterates :: "'a list \<Rightarrow> 'a set \<Rightarrow> bool" where
  "iterates ks S = (distinct ks \<and> set ks = S)"

text \<open>\<^verbatim>\<open>next((item[k] for k in KEYS if k in item), None)\<close>, for \<open>KEYS\<close> iterated as \<open>ks\<close>.\<close>

fun next_value :: "string list \<Rightarrow> (string \<times> json) list \<Rightarrow> json option" where
  "next_value [] item = None"
| "next_value (k # ks) item =
     (case map_of item k of
        Some v \<Rightarrow> Some v
      | None \<Rightarrow> next_value ks item)"

text \<open>\<^verbatim>\<open>not q\<close> for what \<^verbatim>\<open>next\<close> returned; \<open>None\<close> is the default of \<^verbatim>\<open>next\<close>.\<close>

definition py_not :: "json option \<Rightarrow> bool" where
  "py_not q = (case q of None \<Rightarrow> True | Some v \<Rightarrow> \<not> truthy v)"

definition py_str :: "lib \<Rightarrow> json \<Rightarrow> string" where
  "py_str L v = (case v of JStr s \<Rightarrow> s | _ \<Rightarrow> py_repr L v)"

definition extract_qa :: "lib \<Rightarrow> (string \<times> json) list \<Rightarrow> (string \<times> string) option" where
  "extract_qa L item =
     (let q = next_value (question_keys_iter L) item;
          a = next_value (answer_keys_iter L) item
      in if py_not q \<or> py_not a then None
         else (case (q, a) of
                 (Some qv, Some av) \<Rightarrow> Some (strip (py_str L qv), strip (py_str L av))
               | _ \<Rightarrow> None))"

definition extract_source_from_url :: "lib \<Rightarrow> string \<Rightarrow> exn + string" where
  "extract_source_from_url L url =
     (let filename = basename (urlparse_path L url)
      in index1 (split1 (CHR ''.'') filename))"

definition read_file_from_url :: "lib \<Rightarrow> string \<Rightarrow> exn + bytes" where
  "read_file_from_url L url = http_get L url"

section \<open>chunking.py\<close>

record metadata =
  m_source :: string
  m_location :: string
  m_tag :: string

record chunk =
  c_text :: string
  c_metadata :: metadata

text \<open>The normalisation both splitting chunkers apply to a chunk of the splitter.\<close>

definition clean_text :: "string \<Rightarrow> string" where
  "clean_text chunk = strip (re_sub_spaces (replace_newline chunk))"

definition mk_chunk :: "string \<Rightarrow> string \<Rightarrow> string \<Rightarrow> string \<Rightarrow> chunk" where
  "mk_chunk t src loc tg =
     \<lparr>c_text = t, c_metadata = \<lparr>m_source = src, m_location = loc, m_tag = tg\<rparr>\<rparr>"

text \<open>
  The page loop of \<^verbatim>\<open>chunking_pdf\<close>; \<open>page_idx\<close> is the index \<^verbatim>\<open>enumerate\<close> gives the
  first page of the list.
\<close>

fun pdf_pages :: "(string \<Rightarrow> string list) \<Rightarrow> string \<Rightarrow> string \<Rightarrow> nat \<Rightarrow>
    (exn + string) list \<Rightarrow> exn + chunk list" where
  "pdf_pages split_text tag source page_idx [] = Inr []"
| "pdf_pages split_text tag source page_idx (page # pages) =
     (case page of
        Inl e \<Rightarrow> Inl e
      | Inr text \<Rightarrow>
          (case pdf_pages split_text tag source (Suc page_idx) pages of
             Inl e \<Rightarrow> Inl e
           | Inr documents \<Rightarrow>
               if text = [] then Inr documents
               else Inr (map (\<lambda>chunk. mk_chunk (clean_text chunk) source
                                (''Page '' @ str_nat (page_idx + 1)) tag)
                           (split_text text) @ documents)))"

definition chunking_pdf :: "lib \<Rightarrow> bytes \<Rightarrow> string \<Rightarrow> string \<Rightarrow> int \<Rightarrow> int \<Rightarrow> exn + chunk list" where
  "chunking_pdf L file_bytes tag source chunk_size chunk_overlap =
     (case pdf_reader L file_bytes of
        Inl e \<Rightarrow> Inl e
      | Inr pages \<Rightarrow>
          (case text_splitter L chunk_size chunk_overlap of
             Inl e \<Rightarrow> Inl e
           | Inr split_text \<Rightarrow> pdf_pages split_text tag source 0 pages))"

text \<open>\<^verbatim>\<open>" > ".join([h for h in location_parts if h])\<close>\<close>

fun join :: "string \<Rightarrow> string list \<Rightarrow> string" where
  "join sep [] = []"
| "join sep [x] = x"
| "join sep (x # y # ys) = x @ sep @ join sep (y # ys)"

definition md_location :: "(string \<Rightarrow> string option) \<Rightarrow> string" where
  "md_location headers =
     (let location_parts = [headers ''h1'', headers ''h2'', headers ''h3'', headers ''h4''];
          location = join '' > '' (concat (map (\<lambda>h. case h of
                                                  None \<Rightarrow> []
                                                | Some s \<Rightarrow> if s = [] then [] else [s])
                                              location_parts))
      in if location = [] then ''ROOT'' else location)"

fun md_sections :: "(string \<Rightarrow> string list) \<Rightarrow> string \<Rightarrow> string \<Rightarrow> md_doc list \<Rightarrow> chunk list" where
  "md_sections split_text tag source [] = []"
| "md_sections split_text tag source (doc # md_docs) =
     (let section_text = strip (md_page_content doc)
      in if section_text = [] then md_sections split_text tag source md_docs
         else map (\<lambda>chunk. mk_chunk (clean_text chunk) source (md_location (md_headers doc)) tag)
                (split_text section_text)
              @ md_sections split_text tag source md_docs)"

definition chunking_md :: "lib \<Rightarrow> bytes \<Rightarrow> string \<Rightarrow> string \<Rightarrow> int \<Rightarrow> int \<Rightarrow> exn + chunk list" where
  "chunking_md L file_bytes tag source chunk_size chunk_overlap =
     (let text = decode_ignore L file_bytes;
          md_docs = md_header_split L text
      in case text_splitter L chunk_size chunk_overlap of
           Inl e \<Rightarrow> Inl e
         | Inr split_text \<Rightarrow> Inr (md_sections split_text tag source md_docs))"

text \<open>The items \<^verbatim>\<open>chunking_json\<close> iterates over, by the shape of the parsed data.\<close>

definition json_items :: "json \<Rightarrow> exn + json list" where
  "json_items data =
     (case data of
        JObj d \<Rightarrow>
          (case map_of d ''qa'' of
             Some (JArr xs) \<Rightarrow> Inr xs
           | _ \<Rightarrow> Inr [data])
      | JArr xs \<Rightarrow> Inr xs
      | _ \<Rightarrow> Inl (ValueError ''JSON must be dict or list[dict]''))"

text \<open>
  The text and the location of the chunk of a valid item: the f-strings
  \<^verbatim>\<open>f"Question: {question}\nAnswer: {answer}"\<close> and \<^verbatim>\<open>f"Q&A #{idx}"\<close>.
\<close>

definition qa_text :: "string \<Rightarrow> string \<Rightarrow> string" where
  "qa_text question answer = ''Question: '' @ question @ [newline] @ ''Answer: '' @ answer"

definition qa_location :: "nat \<Rightarrow> string" where
  "qa_location idx = ''Q&A #'' @ str_nat idx"

text \<open>The loop \<^verbatim>\<open>for idx, item in enumerate(items, start=idx)\<close> of \<^verbatim>\<open>chunking_json\<close>.\<close>

fun qa_items :: "lib \<Rightarrow> string \<Rightarrow> string \<Rightarrow> nat \<Rightarrow> json list \<Rightarrow> chunk list" where
  "qa_items L tag source idx [] = []"
| "qa_items L tag source idx (item # items) =
     (case item of
        JObj d \<Rightarrow>
          (case extract_qa L d of
             None \<Rightarrow> qa_items L tag source (Suc idx) items
           | Some (question, answer) \<Rightarrow>
               mk_chunk (qa_text question answer) source (qa_location idx) tag
               # qa_items L tag source (Suc idx) items)
      | _ \<Rightarrow> qa_items L tag source (Suc idx) items)"

definition chunking_json :: "lib \<Rightarrow> bytes \<Rightarrow> string \<Rightarrow> string \<Rightarrow> exn + chunk list" where
  "chunking_json L file_bytes tag source =
     (case (case decode_strict L file_bytes of
              Inl e \<Rightarrow> Inl e
            | Inr s \<Rightarrow> json_loads L s) of
        Inl e \<Rightarrow> Inl (ValueError (''Invalid JSON file: '' @ exn_str e))
      | Inr data \<Rightarrow>
          (case json_items data of
             Inl e \<Rightarrow> Inl e
           | Inr items \<Rightarrow>
               (let documents = qa_items L tag source 1 items
                in if documents = [] then Inl (ValueError ''No valid Q&A found in JSON'')
                   else Inr documents)))"

text \<open>
  \<^verbatim>\<open>chunking_file\<close>. The last branch builds a \<^verbatim>\<open>ValueError\<close> and drops it, so the
  function returns \<^verbatim>\<open>None\<close> there: the result is an optional list.
\<close>

definition chunking_file :: "lib \<Rightarrow> string \<Rightarrow> string \<Rightarrow> int \<Rightarrow> int \<Rightarrow> exn + chunk list option" where
  "chunking_file L tag file_path chunk_size chunk_overlap =
     (case read_file_from_url L file_path of
        Inl e \<Rightarrow> Inl e
      | Inr file_bytes \<Rightarrow>
          (case extract_source_from_url L file_path of
             Inl e \<Rightarrow> Inl e
           | Inr source \<Rightarrow>
               if endswith file_path ''.pdf''
               then map_sum id Some (chunking_pdf L file_bytes tag source chunk_size chunk_overlap)
               else if endswith file_path ''.md''
               then map_sum id Some (chunking_md L file_bytes tag source chunk_size chunk_overlap)
               else if endswith file_path ''.json''
               then map_sum id Some (chunking_json L file_bytes tag source)
               else Inr None))"

section \<open>retrieval.py and rag_mcp.py\<close>

text \<open>A langchain \<^verbatim>\<open>Document\<close> as the vector store returns it.\<close>

record document =
  page_content :: string
  doc_metadata :: metadata

text \<open>
  What awaiting a coroutine gives: it finishes after some seconds, with a value or a
  raised exception, or it never finishes.
\<close>

datatype 'a awaited = Done real "exn + 'a" | Never

definition map_awaited :: "('a \<Rightarrow> 'b) \<Rightarrow> 'a awaited \<Rightarrow> 'b awaited" where
  "map_awaited f aw = (case aw of Done t r \<Rightarrow> Done t (map_sum id f r) | Never \<Rightarrow> Never)"

text \<open>
  \<^verbatim>\<open>asyncio.wait_for(aw, timeout)\<close>: the outcome of \<open>aw\<close> when it finishes in time,
  \<^verbatim>\<open>TimeoutError\<close> once the timeout is exceeded.
\<close>

definition wait_for :: "'a awaited \<Rightarrow> real \<Rightarrow> exn + 'a" where
  "wait_for aw timeout =
     (case aw of
        Done t r \<Rightarrow> if timeout < t then Inl TimeoutError else r
      | Never \<Rightarrow> Inl TimeoutError)"

text \<open>
  \<^verbatim>\<open>vector_store.similarity_search(query, k, filter=filter_dict)\<close> run in the executor:
  the vector store is a parameter.
\<close>

type_synonym vector_store = "string \<Rightarrow> int \<Rightarrow> (string \<times> string) list option \<Rightarrow> document list awaited"

definition retrieve_relevant_documents ::
    "vector_store \<Rightarrow> string \<Rightarrow> int \<Rightarrow> string option \<Rightarrow> chunk list awaited" where
  "retrieve_relevant_documents store query k tag =
     (let filter_dict = (case tag of Some t \<Rightarrow> Some [(''tag'', t)] | None \<Rightarrow> None)
      in map_awaited
           (map (\<lambda>item. \<lparr>c_text = page_content item, c_metadata = doc_metadata item\<rparr>))
           (store query k filter_dict))"

text \<open>
  \<^verbatim>\<open>int(x)\<close> of a float truncates towards zero. \<^verbatim>\<open>n / 2\<close> is a float division; it is
  exact on the numerators of \<open>effective_k\<close>, which lie between 2 and 40.
\<close>

definition py_int :: "real \<Rightarrow> int" where
  "py_int x = (if 0 \<le> x then \<lfloor>x\<rfloor> else \<lceil>x\<rceil>)"

text \<open>The first statement of the tool \<^verbatim>\<open>retrieval\<close>.\<close>

definition effective_k :: "int \<Rightarrow> int" where
  "effective_k k = (if k > 0 then py_int (real_of_int (k + 20 - \<bar>k - 20\<bar>) / 2) else 1)"

definition retrieval :: "vector_store \<Rightarrow> string \<Rightarrow> int \<Rightarrow> string option \<Rightarrow> exn + chunk list" where
  "retrieval store query k tag =
     (let k = effective_k k
      in case wait_for (retrieve_relevant_documents store query k tag) 5 of
           Inl TimeoutError \<Rightarrow> Inr []
         | Inl e \<Rightarrow> Inl e
         | Inr results \<Rightarrow> Inr results)"

text \<open>
  Modelled from the spec: the similarity search of the vector store (langchain's
  \<^verbatim>\<open>TiDBVectorStore\<close>, which is not part of the repository). The spec describes it as
  "a similarity-search primitive taking (query_vector, k, optional equality filter on a
  metadata field) returning up to k nearest entries by vector distance, each with its
  stored text and metadata". \<open>nearest query\<close> lists the stored entries, nearest to the
  query first; \<open>seconds query\<close> is the time the search takes.
\<close>

definition metadata_field :: "metadata \<Rightarrow> string \<Rightarrow> string option" where
  "metadata_field m f =
     (if f = ''source'' then Some (m_source m)
      else if f = ''location'' then Some (m_location m)
      else if f = ''tag'' then Some (m_tag m)
      else None)"

definition eligible :: "(string \<times> string) list option \<Rightarrow> document \<Rightarrow> bool" where
  "eligible filter_dict d =
     (case filter_dict of
        None \<Rightarrow> True
      | Some kvs \<Rightarrow> list_all (\<lambda>(f, v). metadata_field (doc_metadata d) f = Some v) kvs)"

definition spec_vector_store :: "(string \<Rightarrow> document list) \<Rightarrow> (string \<Rightarrow> real) \<Rightarrow> vector_store" where
  "spec_vector_store nearest seconds query k filter_dict =
     Done (seconds query) (Inr (take (nat k) (filter (eligible filter_dict) (nearest query))))"

section \<open>Predicates of the claims and an example environment\<close>

text \<open>A run of two or more consecutive space characters.\<close>

fun double_space :: "string \<Rightarrow> bool" where
  "double_space (a # b # cs) = ((a = space \<and> b = space) \<or> double_space (b # cs))"
| "double_space [a] = False"
| "double_space [] = False"

text \<open>The dict that \<^verbatim>\<open>retrieve_relevant_documents\<close> makes of a document.\<close>

definition result_of :: "document \<Rightarrow> chunk" where
  "result_of item = \<lparr>c_text = page_content item, c_metadata = doc_metadata item\<rparr>"

text \<open>
  Library behaviour on the inputs of the examples: the path of a URL on the host
  \<^verbatim>\<open>https://example.com\<close>, a few small files there, a PDF of three pages whose second
  page has no text, a Markdown file of a leading paragraph and one headed section, a
  splitter that leaves a short text in one chunk, stripped, and drops it when nothing is
  left (as langchain's splitter does with its default \<^verbatim>\<open>strip_whitespace\<close>), and \<^verbatim>\<open>str\<close> of \<^verbatim>\<open>None\<close>, of a boolean
  and of an integer. The sets of keys are iterated in the order they are written in.
\<close>

definition example_json :: json where
  "example_json =
     JObj [(''qa'', JArr [JObj [(''question'', JStr ''Q1''), (''answer'', JStr ''A1'')],
                          JObj [(''q'', JStr ''Q2'')]])]"

definition example_md :: bytes where
  "example_md =
     ''Lead   paragraph'' @ [newline] @ ''# A'' @ [newline] @ ''Body of A'' @ [newline]
     @ ''second line''"

definition example_lib :: lib where
  \<open>example_lib =
     \<lparr>http_get = (\<lambda>url.
        if url = ''https://example.com/data/faq.json''
        then Inr ''{"qa": [{"question":"Q1","answer":"A1"}, {"q":"Q2"}]}''
        else if url = ''https://example.com/data/none.json'' then Inr ''{"qa": [{}]}''
        else if url = ''https://example.com/data/list.json''
        then Inr ''[{"q": "Q0"}, {"question": "Q1", "answer": "A1"}]''
        else if url = ''https://example.com/data/mcp.json''
        then Inr ''[{"question": "What  is MCP?", "answer": "A protocol"}]''
        else if url = ''https://example.com/files/report.final.pdf'' then Inr ''%PDF-1.7''
        else if url = ''https://example.com/files/notes.txt'' then Inr ''plain notes''
        else if url = ''https://example.com/files/README'' then Inr ''read me''
        else Inl (LibraryError ''HTTPStatusError'')),
      urlparse_path = (\<lambda>url.
        if take 19 url = ''https://example.com'' then drop 19 url else url),
      pdf_reader = (\<lambda>file_bytes.
        if file_bytes = ''%PDF-1.7''
        then Inr [Inr (''Refund  policy'' @ [newline] @ '' applies''), Inr [], Inr ''Contact us'']
        else Inl (LibraryError ''PdfReadError'')),
      text_splitter = (\<lambda>chunk_size chunk_overlap.
        if chunk_overlap > chunk_size then Inl (ValueError ''chunk overlap larger than chunk size'')
        else Inr (\<lambda>text. if strip text = [] then [] else [strip text])),
      decode_ignore = (\<lambda>file_bytes. file_bytes),
      md_header_split = (\<lambda>text.
        if text = example_md
        then [\<lparr>md_page_content = ''Lead   paragraph'', md_headers = Map.empty\<rparr>,
              \<lparr>md_page_content = ''Body of A'' @ [newline] @ ''second line'',
               md_headers = [''h1'' \<mapsto> ''A'']\<rparr>]
        else []),
      decode_strict = (\<lambda>file_bytes. Inr file_bytes),
      json_loads = (\<lambda>s.
        if s = ''{"qa": [{"question":"Q1","answer":"A1"}, {"q":"Q2"}]}'' then Inr example_json
        else if s = ''{"qa": [{}]}'' then Inr (JObj [(''qa'', JArr [JObj []])])
        else if s = ''[{"q": "Q0"}, {"question": "Q1", "answer": "A1"}]''
        then Inr (JArr [JObj [(''q'', JStr ''Q0'')],
                        JObj [(''question'', JStr ''Q1''), (''answer'', JStr ''A1'')]])
        else if s = ''[{"question": "What  is MCP?", "answer": "A protocol"}]''
        then Inr (JArr [JObj [(''question'', JStr ''What  is MCP?''),
                              (''answer'', JStr ''A protocol'')]])
        else Inl (LibraryError ''JSONDecodeError'')),
      py_repr = (\<lambda>v. case v of JInt n \<Rightarrow> (if 0 \<le> n then str_nat (nat n) else ''-'' @ str_nat (nat (- n)))
                         | JBool b \<Rightarrow> (if b then ''True'' else ''False'')
                         | JNull \<Rightarrow> ''None''
                         | _ \<Rightarrow> []),
      question_keys_iter = [''question'', ''q'', ''query''],
      answer_keys_iter = [''answer'', ''a'', ''response'']\<rparr>\<close>

text \<open>
  Another order in which the interpreter iterates over the same two sets (the one of
  CPython with \<^verbatim>\<open>PYTHONHASHSEED=6\<close>).
\<close>

definition example_lib_seed6 :: lib where
  "example_lib_seed6 =
     example_lib\<lparr>question_keys_iter := [''q'', ''query'', ''question''],
                 answer_keys_iter := [''a'', ''answer'', ''response'']\<rparr>"

section \<open>The clamp of k\<close>

text \<open>
  The numerator of the division stays small, so the float division of the source is
  exact.
\<close>

lemma numerator_range: "0 < k \<Longrightarrow> 2 \<le> k + 20 - \<bar>k - 20\<bar> \<and> k + 20 - \<bar>k - 20\<bar> \<le> (40::int)"
  by linarith





section \<open>The timeout of the retrieval tool\<close>

lemma retrieval_cases:
  "retrieval store query k tag =
     (case store query (effective_k k)
             (case tag of Some t \<Rightarrow> Some [(''tag'', t)] | None \<Rightarrow> None) of
        Never \<Rightarrow> Inr []
      | Done t r \<Rightarrow>
          if 5 < t then Inr []
          else (case r of
                  Inl TimeoutError \<Rightarrow> Inr []
                | Inl e \<Rightarrow> Inl e
                | Inr documents \<Rightarrow> Inr (map result_of documents)))"
  by (simp add: retrieval_def retrieve_relevant_documents_def wait_for_def map_awaited_def
      result_of_def split: awaited.splits sum.splits exn.splits)

text \<open>
  C2. When the similarity search that \<^verbatim>\<open>retrieval\<close> starts (with the effective \<open>k\<close> and
  the filter of the tag) takes more than 5 seconds or never finishes, the tool returns
  the empty list and no error; when it finishes within 5 seconds with a list of documents,
  the tool returns their \<open>{text, metadata}\<close> pairs in the same order.
\<close>

theorem retrieval_timeout_returns_empty:
  assumes "search = store query (effective_k k)
                      (case tag of Some t \<Rightarrow> Some [(''tag'', t)] | None \<Rightarrow> None)"
  shows "(search = Never \<or> (\<exists>t r. search = Done t r \<and> 5 < t) \<longrightarrow>
            retrieval store query k tag = Inr [])
       \<and> (\<forall>t documents. search = Done t (Inr documents) \<and> t \<le> 5 \<longrightarrow>
            retrieval store query k tag = Inr (map result_of documents))"
  using assms by (auto simp: retrieval_cases)

theorem retrieval_timeout_returns_empty_witness:
  "retrieval (\<lambda>q k f. Done 6 (Inr [\<lparr>page_content = ''late'',
       doc_metadata = \<lparr>m_source = ''pdf'', m_location = ''Page 1'', m_tag = ''A''\<rparr>\<rparr>]))
     ''what is MCP'' 3 None = Inr []
   \<and> retrieval (\<lambda>q k f. Never) ''what is MCP'' 3 None = Inr []
   \<and> retrieval (\<lambda>q k f. Done 1 (Inr
       [\<lparr>page_content = ''first'',
          doc_metadata = \<lparr>m_source = ''pdf'', m_location = ''Page 1'', m_tag = ''A''\<rparr>\<rparr>,
        \<lparr>page_content = ''second'',
          doc_metadata = \<lparr>m_source = ''md'', m_location = ''ROOT'', m_tag = ''B''\<rparr>\<rparr>]))
     ''what is MCP'' 3 None
     = Inr [\<lparr>c_text = ''first'',
              c_metadata = \<lparr>m_source = ''pdf'', m_location = ''Page 1'', m_tag = ''A''\<rparr>\<rparr>,
            \<lparr>c_text = ''second'',
              c_metadata = \<lparr>m_source = ''md'', m_location = ''ROOT'', m_tag = ''B''\<rparr>\<rparr>]"
  using
    retrieval_timeout_returns_empty [OF refl,
      where store = "\<lambda>q k f. Done 6 (Inr [\<lparr>page_content = ''late'',
        doc_metadata = \<lparr>m_source = ''pdf'', m_location = ''Page 1'', m_tag = ''A''\<rparr>\<rparr>])"
      and query = "''what is MCP''" and k = 3 and tag = None]
    retrieval_timeout_returns_empty [OF refl,
      where store = "\<lambda>q k f. Never" and query = "''what is MCP''" and k = 3 and tag = None]
    retrieval_timeout_returns_empty [OF refl,
      where store = "\<lambda>q k f. Done 1 (Inr
       [\<lparr>page_content = ''first'',
          doc_metadata = \<lparr>m_source = ''pdf'', m_location = ''Page 1'', m_tag = ''A''\<rparr>\<rparr>,
        \<lparr>page_content = ''second'',
          doc_metadata = \<lparr>m_source = ''md'', m_location = ''ROOT'', m_tag = ''B''\<rparr>\<rparr>])"
      and query = "''what is MCP''" and k = 3 and tag = None]
  by (simp add: result_of_def)

section \<open>The tag filter\<close>

text \<open>
  C6. \<^verbatim>\<open>retrieve_relevant_documents\<close> hands the store the filter \<open>{"tag": tag}\<close> when a
  tag is given and no filter when it is not. With the vector store of the spec, a given
  tag restricts the result to the nearest documents whose stored tag is equal to it, and
  no tag leaves the nearest documents unrestricted.
\<close>

theorem retrieve_tag_filter_exact:
  "retrieve_relevant_documents store query k tag =
     map_awaited (map result_of)
       (store query k (case tag of Some t \<Rightarrow> Some [(''tag'', t)] | None \<Rightarrow> None))
   \<and> retrieve_relevant_documents (spec_vector_store nearest seconds) query k (Some t) =
       Done (seconds query)
         (Inr (map result_of
                 (take (nat k) (filter (\<lambda>d. m_tag (doc_metadata d) = t) (nearest query)))))
   \<and> retrieve_relevant_documents (spec_vector_store nearest seconds) query k None =
       Done (seconds query) (Inr (map result_of (take (nat k) (nearest query))))"
proof -
  have a: "eligible (Some [(''tag'', t)]) = (\<lambda>d. m_tag (doc_metadata d) = t)"
    by (rule ext) (simp add: eligible_def metadata_field_def)
  have b: "eligible None = (\<lambda>d. True)"
    by (rule ext) (simp add: eligible_def)
  have r: "(\<lambda>item. \<lparr>c_text = page_content item, c_metadata = doc_metadata item\<rparr>) = result_of"
    by (rule ext) (simp add: result_of_def)
  show ?thesis
    by (simp add: retrieve_relevant_documents_def spec_vector_store_def map_awaited_def a b r)
qed

theorem retrieve_tag_filter_exact_witness:
  "retrieve_relevant_documents
     (spec_vector_store
        (\<lambda>q. [\<lparr>page_content = ''one'',
                 doc_metadata = \<lparr>m_source = ''pdf'', m_location = ''Page 1'', m_tag = ''A''\<rparr>\<rparr>,
               \<lparr>page_content = ''two'',
                 doc_metadata = \<lparr>m_source = ''pdf'', m_location = ''Page 2'', m_tag = ''AB''\<rparr>\<rparr>,
               \<lparr>page_content = ''three'',
                 doc_metadata = \<lparr>m_source = ''md'', m_location = ''ROOT'', m_tag = ''A''\<rparr>\<rparr>])
        (\<lambda>q. 1))
     ''what is MCP'' 20 (Some ''A'')
   = Done 1 (Inr [\<lparr>c_text = ''one'',
                    c_metadata = \<lparr>m_source = ''pdf'', m_location = ''Page 1'', m_tag = ''A''\<rparr>\<rparr>,
                  \<lparr>c_text = ''three'',
                    c_metadata = \<lparr>m_source = ''md'', m_location = ''ROOT'', m_tag = ''A''\<rparr>\<rparr>])"
  using retrieve_tag_filter_exact [where t = "''A''" and k = 20 and query = "''what is MCP''"
      and seconds = "\<lambda>q. 1" and tag = None and store = "\<lambda>q k f. Never"
      and nearest = "\<lambda>q. [\<lparr>page_content = ''one'',
                 doc_metadata = \<lparr>m_source = ''pdf'', m_location = ''Page 1'', m_tag = ''A''\<rparr>\<rparr>,
               \<lparr>page_content = ''two'',
                 doc_metadata = \<lparr>m_source = ''pdf'', m_location = ''Page 2'', m_tag = ''AB''\<rparr>\<rparr>,
               \<lparr>page_content = ''three'',
                 doc_metadata = \<lparr>m_source = ''md'', m_location = ''ROOT'', m_tag = ''A''\<rparr>\<rparr>]"]
  by (simp add: result_of_def)

section \<open>The source label of a URL\<close>

lemma split1_found:
  assumes "sep \<notin> set pre"
  shows "split1 sep (pre @ sep # post) = [pre, post]"
proof -
  have all: "\<forall>c\<in>set pre. c \<noteq> sep"
    using assms by auto
  have d: "dropWhile (\<lambda>c. c \<noteq> sep) (pre @ sep # post) = sep # post"
    using all by (simp add: dropWhile_append3)
  have t: "takeWhile (\<lambda>c. c \<noteq> sep) (pre @ sep # post) = pre"
    using all by (simp add: takeWhile_tail)
  show ?thesis
    by (simp only: split1_def d t list.case)
qed

lemma split1_absent:
  assumes "sep \<notin> set s"
  shows "split1 sep s = [s]"
proof -
  have "\<forall>c\<in>set s. c \<noteq> sep"
    using assms by auto
  then have d: "dropWhile (\<lambda>c. c \<noteq> sep) s = []"
    by simp
  show ?thesis
    by (simp only: split1_def d list.case)
qed

text \<open>
  C9. When the basename of the path of a URL contains a dot, the basename reads
  \<open>pre.post\<close> with no dot in \<open>pre\<close>, and the source label is \<open>post\<close>: everything up
  to and including the first dot is stripped, so \<^verbatim>\<open>report.final.pdf\<close> gives
  \<^verbatim>\<open>final.pdf\<close>.
\<close>

theorem source_label_after_first_dot:
  assumes "CHR ''.'' \<in> set (basename (urlparse_path L url))"
  shows "\<exists>pre post. basename (urlparse_path L url) = pre @ CHR ''.'' # post
           \<and> CHR ''.'' \<notin> set pre
           \<and> extract_source_from_url L url = Inr post"
proof -
  from split_list_first [OF assms] obtain pre post where
    parts: "basename (urlparse_path L url) = pre @ CHR ''.'' # post" "CHR ''.'' \<notin> set pre"
    by blast
  then have "extract_source_from_url L url = Inr post"
    by (simp add: extract_source_from_url_def split1_found index1_def)
  with parts show ?thesis
    by blast
qed

theorem source_label_after_first_dot_witness:
  "CHR ''.'' \<in> set (basename (urlparse_path example_lib
       ''https://example.com/files/report.final.pdf''))
   \<and> (\<exists>pre post.
         basename (urlparse_path example_lib ''https://example.com/files/report.final.pdf'')
           = pre @ CHR ''.'' # post
       \<and> CHR ''.'' \<notin> set pre
       \<and> extract_source_from_url example_lib ''https://example.com/files/report.final.pdf''
           = Inr post)
   \<and> extract_source_from_url example_lib ''https://example.com/files/report.final.pdf''
       = Inr ''final.pdf''"
proof -
  have 1: "CHR ''.'' \<in> set (basename (urlparse_path example_lib
       ''https://example.com/files/report.final.pdf''))"
    by (simp add: basename_def example_lib_def)
  have 2: "extract_source_from_url example_lib ''https://example.com/files/report.final.pdf''
       = Inr ''final.pdf''"
    by (simp add: extract_source_from_url_def basename_def example_lib_def split1_def index1_def)
  from source_label_after_first_dot [OF 1] 1 2 show ?thesis
    by (intro conjI)
qed

text \<open>
  C10. When the basename of the path of a URL contains no dot, \<^verbatim>\<open>extract_source_from_url\<close>
  returns no label: it raises \<^verbatim>\<open>IndexError\<close>. \<^verbatim>\<open>chunking_file\<close> on such a path then
  fails, with the error of the download or with this \<^verbatim>\<open>IndexError\<close>, whatever the
  chunkers would do.
\<close>

theorem source_label_fails_without_dot:
  assumes "CHR ''.'' \<notin> set (basename (urlparse_path L url))"
  shows "extract_source_from_url L url = Inl (IndexError ''list index out of range'')
       \<and> chunking_file L tag url chunk_size chunk_overlap =
           (case http_get L url of
              Inl e \<Rightarrow> Inl e
            | Inr file_bytes \<Rightarrow> Inl (IndexError ''list index out of range''))"
proof -
  have "extract_source_from_url L url = Inl (IndexError ''list index out of range'')"
    using assms by (simp add: extract_source_from_url_def split1_absent index1_def)
  then show ?thesis
    by (simp add: chunking_file_def read_file_from_url_def split: sum.splits)
qed

theorem source_label_fails_without_dot_witness:
  "CHR ''.'' \<notin> set (basename (urlparse_path example_lib ''https://example.com/files/README''))
   \<and> extract_source_from_url example_lib ''https://example.com/files/README''
       = Inl (IndexError ''list index out of range'')
   \<and> chunking_file example_lib ''docs'' ''https://example.com/files/README'' 500 50
       = Inl (IndexError ''list index out of range'')"
proof -
  have 1: "CHR ''.'' \<notin> set (basename (urlparse_path example_lib ''https://example.com/files/README''))"
    by (simp add: basename_def example_lib_def)
  have 2: "http_get example_lib ''https://example.com/files/README'' = Inr ''read me''"
    by (simp add: example_lib_def)
  from source_label_fails_without_dot [OF 1, of "''docs''" 500 50] 1 2 show ?thesis
    by simp
qed

section \<open>The dispatch on the suffix\<close>

lemma chunking_file_other_suffix:
  assumes "http_get L file_path = Inr file_bytes"
    and "extract_source_from_url L file_path = Inr source"
    and "\<not> endswith file_path ''.pdf''" "\<not> endswith file_path ''.md''"
    and "\<not> endswith file_path ''.json''"
  shows "chunking_file L tag file_path chunk_size chunk_overlap = Inr None"
  using assms by (simp add: chunking_file_def read_file_from_url_def)

text \<open>
  C4. The claim is that a path whose suffix is none of \<^verbatim>\<open>.pdf\<close>, \<^verbatim>\<open>.md\<close>, \<^verbatim>\<open>.json\<close>
  makes \<^verbatim>\<open>chunking_file\<close> fail. The source builds the \<^verbatim>\<open>ValueError\<close> and does not
  raise it: on \<^verbatim>\<open>https://example.com/files/notes.txt\<close> the call returns \<^verbatim>\<open>None\<close> and
  no error.
\<close>

theorem chunking_file_txt_returns_None:
  "chunking_file example_lib ''docs'' ''https://example.com/files/notes.txt'' 500 50 = Inr None"
  by (simp add: chunking_file_def read_file_from_url_def example_lib_def
      extract_source_from_url_def basename_def split1_def index1_def endswith_def)

section \<open>The keys of a Q&A item\<close>

lemma next_value_first_present:
  "next_value ks item = Some v \<Longrightarrow>
     \<exists>k \<in> set ks. map_of item k = Some v
       \<and> (\<forall>k' \<in> set (takeWhile (\<lambda>x. x \<noteq> k) ks). map_of item k' = None)"
proof (induction ks)
  case Nil
  then show ?case by simp
next
  case (Cons k ks)
  show ?case
  proof (cases "map_of item k")
    case None
    with Cons.prems have "next_value ks item = Some v"
      by simp
    from Cons.IH [OF this] obtain k0 where
      k0: "k0 \<in> set ks" "map_of item k0 = Some v"
        "\<forall>k' \<in> set (takeWhile (\<lambda>x. x \<noteq> k0) ks). map_of item k' = None"
      by blast
    from k0(2) None have "k \<noteq> k0"
      by auto
    with k0 None show ?thesis
      by (intro bexI [of _ k0]) auto
  next
    case (Some w)
    with Cons.prems have "w = v"
      by simp
    with Some show ?thesis
      by (intro bexI [of _ k]) auto
  qed
qed

lemma next_value_written_order:
  assumes "map_of item ''question'' = Some v"
  shows "next_value [''question'', ''q'', ''query''] item = Some v"
  using assms by simp

text \<open>
  C5. The keys are to be tried in the fixed order \<open>question\<close>, \<open>q\<close>, \<open>query\<close>, the first
  match winning, so that an item with both \<open>question\<close> and \<open>q\<close> gives the value under
  \<open>question\<close>. The source writes the keys in that order and takes the first match with
  \<^verbatim>\<open>next\<close>, but it holds them in set literals, which the interpreter iterates in the
  order of their hashes. Where that order is \<open>q\<close>, \<open>query\<close>, \<open>question\<close>, the item
  \<open>{"question": "long form", "q": "short form", "answer": "A"}\<close> gives the value under
  \<open>q\<close>.
\<close>

theorem extract_qa_question_not_preferred:
  "iterates (question_keys_iter example_lib_seed6) QUESTION_KEYS
   \<and> iterates (answer_keys_iter example_lib_seed6) ANSWER_KEYS
   \<and> extract_qa example_lib_seed6
        [(''question'', JStr ''long form''), (''q'', JStr ''short form''), (''answer'', JStr ''A'')]
      = Some (''short form'', ''A'')"
  by (simp add: iterates_def QUESTION_KEYS_def ANSWER_KEYS_def example_lib_seed6_def
      example_lib_def extract_qa_def py_not_def py_str_def strip_def lstrip_def rstrip_def
      isspace_def whitespace_def insert_commute)

section \<open>The structured Q&A chunker\<close>

lemma qa_items_enumerate:
  "qa_items L tag source idx items =
     concat (map (\<lambda>(n, item).
                case item of
                  JObj d \<Rightarrow>
                    (case extract_qa L d of
                       Some (question, answer) \<Rightarrow>
                         [mk_chunk (qa_text question answer) source (qa_location n) tag]
                     | None \<Rightarrow> [])
                | _ \<Rightarrow> [])
            (zip [idx ..< idx + length items] items))"
proof (induction items arbitrary: idx)
  case Nil
  show ?case by simp
next
  case (Cons item items)
  have upt: "[idx ..< idx + length (item # items)] = idx # [Suc idx ..< Suc idx + length items]"
    by (simp add: upt_rec)
  show ?case
    unfolding upt by (simp add: Cons.IH split: json.splits option.splits)
qed

lemma qa_items_empty:
  "(qa_items L tag source idx items = []) =
     (\<forall>item \<in> set items. \<forall>d. item = JObj d \<longrightarrow> extract_qa L d = None)"
  by (induction items arbitrary: idx) (auto split: json.splits option.splits)

lemma chunking_json_never_empty: "chunking_json L file_bytes tag source \<noteq> Inr []"
  by (simp add: chunking_json_def Let_def split: sum.splits)

text \<open>
  C7. When the file decodes and parses, and every item of the parsed data is either no
  dict or a dict from which \<^verbatim>\<open>extract_qa\<close> gets no question or no answer, then
  \<^verbatim>\<open>chunking_json\<close> raises \<^verbatim>\<open>ValueError("No valid Q&A found in JSON")\<close> and returns no
  list.
\<close>

theorem chunking_json_no_valid_qa_fails:
  assumes "decode_strict L file_bytes = Inr s" and "json_loads L s = Inr data"
    and "json_items data = Inr items"
    and "\<forall>item \<in> set items. \<forall>d. item = JObj d \<longrightarrow> extract_qa L d = None"
  shows "chunking_json L file_bytes tag source = Inl (ValueError ''No valid Q&A found in JSON'')"
proof -
  have "qa_items L tag source 1 items = []"
    using assms(4) by (simp only: qa_items_empty)
  then show ?thesis
    using assms(1-3) by (simp add: chunking_json_def)
qed

theorem chunking_json_no_valid_qa_fails_witness:
  \<open>decode_strict example_lib ''{"qa": [{}]}'' = Inr ''{"qa": [{}]}''
   \<and> json_loads example_lib ''{"qa": [{}]}'' = Inr (JObj [(''qa'', JArr [JObj []])])
   \<and> json_items (JObj [(''qa'', JArr [JObj []])]) = Inr [JObj []]
   \<and> extract_qa example_lib [] = None
   \<and> chunking_json example_lib ''{"qa": [{}]}'' ''faq'' ''json''
       = Inl (ValueError ''No valid Q&A found in JSON'')\<close>
proof -
  have 1: \<open>decode_strict example_lib ''{"qa": [{}]}'' = Inr ''{"qa": [{}]}''\<close>
    by (simp add: example_lib_def)
  have 2: \<open>json_loads example_lib ''{"qa": [{}]}'' = Inr (JObj [(''qa'', JArr [JObj []])])\<close>
    by (simp add: example_lib_def)
  have 3: "json_items (JObj [(''qa'', JArr [JObj []])]) = Inr [JObj []]"
    by (simp add: json_items_def)
  have 4: "\<forall>item \<in> set [JObj []]. \<forall>d. item = JObj d \<longrightarrow> extract_qa example_lib d = None"
    by (simp add: extract_qa_def example_lib_def py_not_def)
  have 5: "extract_qa example_lib [] = None"
    using 4 by simp
  from chunking_json_no_valid_qa_fails [OF 1 2 3 4, of "''faq''" "''json''"] 1 2 3 5 show ?thesis
    by (intro conjI)
qed

text \<open>
  C8. The list \<^verbatim>\<open>chunking_json\<close> returns has, for each item of the input in order, one
  chunk when the item is a dict with a question and an answer and none otherwise; the text
  of the chunk is \<open>Question: q\<close>, a newline, \<open>Answer: a\<close>, and its location is \<open>Q&A #n\<close>
  for the position \<open>n\<close> of the item among all items, counted from 1.
\<close>

theorem chunking_json_numbers_by_position:
  assumes "decode_strict L file_bytes = Inr s" and "json_loads L s = Inr data"
    and "json_items data = Inr items"
    and "chunking_json L file_bytes tag source = Inr documents"
  shows "documents =
     concat (map (\<lambda>(n, item).
                case item of
                  JObj d \<Rightarrow>
                    (case extract_qa L d of
                       Some (question, answer) \<Rightarrow>
                         [\<lparr>c_text = ''Question: '' @ question @ [newline] @ ''Answer: '' @ answer,
                           c_metadata = \<lparr>m_source = source,
                                          m_location = ''Q&A #'' @ str_nat n,
                                          m_tag = tag\<rparr>\<rparr>]
                     | None \<Rightarrow> [])
                | _ \<Rightarrow> [])
            (zip [1 ..< 1 + length items] items))"
proof -
  have "documents = qa_items L tag source 1 items"
    using assms by (simp add: chunking_json_def Let_def split: if_splits)
  then show ?thesis
    by (simp only: qa_items_enumerate mk_chunk_def qa_text_def qa_location_def)
qed

theorem chunking_json_numbers_by_position_witness:
  \<open>decode_strict example_lib ''[{"q": "Q0"}, {"question": "Q1", "answer": "A1"}]''
     = Inr ''[{"q": "Q0"}, {"question": "Q1", "answer": "A1"}]''
   \<and> json_loads example_lib ''[{"q": "Q0"}, {"question": "Q1", "answer": "A1"}]''
     = Inr (JArr [JObj [(''q'', JStr ''Q0'')],
                  JObj [(''question'', JStr ''Q1''), (''answer'', JStr ''A1'')]])
   \<and> json_items (JArr [JObj [(''q'', JStr ''Q0'')],
                        JObj [(''question'', JStr ''Q1''), (''answer'', JStr ''A1'')]])
     = Inr [JObj [(''q'', JStr ''Q0'')],
            JObj [(''question'', JStr ''Q1''), (''answer'', JStr ''A1'')]]
   \<and> chunking_json example_lib ''[{"q": "Q0"}, {"question": "Q1", "answer": "A1"}]''
        ''faq'' ''json''
     = Inr [\<lparr>c_text = ''Question: Q1'' @ [newline] @ ''Answer: A1'',
              c_metadata = \<lparr>m_source = ''json'', m_location = ''Q&A #2'', m_tag = ''faq''\<rparr>\<rparr>]
   \<and> extract_qa example_lib [(''q'', JStr ''Q0'')] = None
   \<and> extract_qa example_lib [(''question'', JStr ''Q1''), (''answer'', JStr ''A1'')]
     = Some (''Q1'', ''A1'')\<close>
proof -
  have 1: \<open>decode_strict example_lib ''[{"q": "Q0"}, {"question": "Q1", "answer": "A1"}]''
     = Inr ''[{"q": "Q0"}, {"question": "Q1", "answer": "A1"}]''\<close>
    by (simp add: example_lib_def)
  have 2: \<open>json_loads example_lib ''[{"q": "Q0"}, {"question": "Q1", "answer": "A1"}]''
     = Inr (JArr [JObj [(''q'', JStr ''Q0'')],
                  JObj [(''question'', JStr ''Q1''), (''answer'', JStr ''A1'')]])\<close>
    by (simp add: example_lib_def)
  have 3: "json_items (JArr [JObj [(''q'', JStr ''Q0'')],
                        JObj [(''question'', JStr ''Q1''), (''answer'', JStr ''A1'')]])
     = Inr [JObj [(''q'', JStr ''Q0'')],
            JObj [(''question'', JStr ''Q1''), (''answer'', JStr ''A1'')]]"
    by (simp add: json_items_def)
  have 5: "extract_qa example_lib [(''q'', JStr ''Q0'')] = None"
    by (simp add: extract_qa_def example_lib_def py_not_def)
  have 6: "extract_qa example_lib [(''question'', JStr ''Q1''), (''answer'', JStr ''A1'')]
     = Some (''Q1'', ''A1'')"
    by (simp add: extract_qa_def example_lib_def py_not_def py_str_def strip_def lstrip_def
        rstrip_def isspace_def whitespace_def)
  obtain documents where
    4: \<open>chunking_json example_lib ''[{"q": "Q0"}, {"question": "Q1", "answer": "A1"}]''
        ''faq'' ''json'' = Inr documents\<close>
    using 1 2 3 5 6 by (simp add: chunking_json_def)
  have "documents = [\<lparr>c_text = ''Question: Q1'' @ [newline] @ ''Answer: A1'',
              c_metadata = \<lparr>m_source = ''json'', m_location = ''Q&A #2'', m_tag = ''faq''\<rparr>\<rparr>]"
    using chunking_json_numbers_by_position [OF 1 2 3 4] 5 6 by (simp add: upt_rec str_nat.simps)
  with 1 2 3 4 5 6 show ?thesis
    by simp
qed

section \<open>The whitespace of a chunk\<close>


lemma double_space_append:
  "double_space s \<Longrightarrow> double_space (pre @ s)"
proof (induction pre)
  case Nil
  then show ?case by simp
next
  case (Cons p pre)
  then have "double_space (pre @ s)" by simp
  then show ?case
    by (cases "pre @ s") auto
qed

lemma double_space_infix:
  "double_space s = (\<exists>pre post. s = pre @ space # space # post)"
proof
  show "double_space s \<Longrightarrow> \<exists>pre post. s = pre @ space # space # post"
  proof (induction s rule: double_space.induct)
    case (1 a b cs)
    then consider "a = space \<and> b = space" | "double_space (b # cs)"
      by auto
    then show ?case
    proof cases
      case 1
      then have "a # b # cs = [] @ space # space # cs" by simp
      then show ?thesis by blast
    next
      case 2
      with "1.IH" obtain pre post where "b # cs = pre @ space # space # post"
        by blast
      then have "a # b # cs = (a # pre) @ space # space # post" by simp
      then show ?thesis by blast
    qed
  qed simp_all
next
  assume "\<exists>pre post. s = pre @ space # space # post"
  then obtain pre post where s: "s = pre @ space # space # post"
    by blast
  have "double_space (space # space # post)"
    by simp
  then show "double_space s"
    unfolding s by (rule double_space_append)
qed

















subsection \<open>Where the text of a chunk comes from\<close>







subsection \<open>The three chunkers on the examples\<close>


lemma example_md:
  "chunking_md example_lib example_md ''docs'' ''md'' 500 50
     = Inr [\<lparr>c_text = ''Lead paragraph'',
              c_metadata = \<lparr>m_source = ''md'', m_location = ''ROOT'', m_tag = ''docs''\<rparr>\<rparr>,
            \<lparr>c_text = ''Body of A second line'',
              c_metadata = \<lparr>m_source = ''md'', m_location = ''A'', m_tag = ''docs''\<rparr>\<rparr>]"
  by (simp add: chunking_md_def example_lib_def example_md_def clean_text_def replace_newline_def
      strip_def lstrip_def rstrip_def isspace_def whitespace_def newline_def space_def
      mk_chunk_def md_location_def)


lemma example_mcp:
  \<open>chunking_json example_lib ''[{"question": "What  is MCP?", "answer": "A protocol"}]''
      ''faq'' ''json''
     = Inr [\<lparr>c_text = ''Question: What  is MCP?'' @ [newline] @ ''Answer: A protocol'',
              c_metadata = \<lparr>m_source = ''json'', m_location = ''Q&A #1'', m_tag = ''faq''\<rparr>\<rparr>]\<close>
  by (simp add: chunking_json_def example_lib_def json_items_def
      extract_qa_def py_not_def py_str_def strip_def lstrip_def rstrip_def isspace_def
      whitespace_def mk_chunk_def qa_text_def qa_location_def str_nat.simps)





end
